theory Spec2Isabelle
  imports Main "HOL-Library.Word"
begin

section \<open>The host-alias injecting admission webhook\<close>

text \<open>
  The repository holds two revisions of the webhook, both \<^verbatim>\<open>package main\<close>: \<^verbatim>\<open>main.go\<close>,
  whose \<^verbatim>\<open>mutatePods\<close> builds every response literally and returns a fixed patch, and a
  second file whose \<^verbatim>\<open>mutatePods\<close> goes through the constructors \<^verbatim>\<open>responseErrored\<close>,
  \<^verbatim>\<open>responseAllowed\<close> and \<^verbatim>\<open>patchResponseFromRaw\<close>. The functions \<^verbatim>\<open>isWatching\<close> and
  \<^verbatim>\<open>getHostAliasesFromServices\<close> are the same in both (the second passes its context on to
  the listing call). The engine of \<^verbatim>\<open>main.go\<close> is embedded as \<open>mutatePods_main\<close>, the other
  as \<open>mutatePods\<close>.
\<close>

subsection \<open>Go values\<close>

text \<open>
  A Go slice is either \<^verbatim>\<open>nil\<close> or a sequence; the source tests \<^verbatim>\<open>pod.Spec.HostAliases == nil\<close>
  and returns \<^verbatim>\<open>nil\<close> in one place and an empty slice in another, so a slice is an optional
  list, \<open>None\<close> for \<^verbatim>\<open>nil\<close>. \<^verbatim>\<open>len\<close> and \<^verbatim>\<open>append\<close> accept \<^verbatim>\<open>nil\<close>. A byte slice is a
  slice of characters (a HOL \<open>char\<close> is a byte). An \<^verbatim>\<open>error\<close> is modelled by the
  text its \<^verbatim>\<open>Error()\<close> method returns, the only use the source makes of it.
\<close>

type_synonym 'a slice = "'a list option"

definition len :: "'a slice \<Rightarrow> nat" where
  "len s = (case s of None \<Rightarrow> 0 | Some xs \<Rightarrow> length xs)"

definition append_slice :: "'a slice \<Rightarrow> 'a list \<Rightarrow> 'a slice" where
  "append_slice s ys = (case s of None \<Rightarrow> Some ys | Some xs \<Rightarrow> Some (xs @ ys))"

definition elems :: "'a slice \<Rightarrow> 'a list" where
  "elems s = (case s of None \<Rightarrow> [] | Some xs \<Rightarrow> xs)"

text \<open>
  A Go map is \<^verbatim>\<open>nil\<close> or a finite mapping; the two-valued index expression
  \<^verbatim>\<open>v, ok := m[k]\<close> is defined on both and never panics.
\<close>

type_synonym gomap = "(string \<rightharpoonup> string) option"

definition index_ok :: "gomap \<Rightarrow> string \<Rightarrow> string \<times> bool" where
  "index_ok m k =
     (case m of
        None \<Rightarrow> ('''', False)
      | Some f \<Rightarrow> (case f k of None \<Rightarrow> ('''', False) | Some v \<Rightarrow> (v, True)))"

subsection \<open>The Kubernetes objects the engine reads and writes\<close>

text \<open>
  Only the fields the source touches are named. A Pod has many more; they live in the
  extension part of the record (\<open>'x Pod_scheme\<close>), so that decoding and encoding, which
  are parameters below, may depend on them.
\<close>

record ObjectMeta =
  Name :: string
  Namespace :: string
  Labels :: gomap

record HostAlias =
  IP :: string
  Hostnames :: "string list"

record PodSpec =
  HostAliases :: "HostAlias slice"

record Pod =
  ObjectMeta :: ObjectMeta
  Spec :: PodSpec

record ServiceSpec =
  Type :: string
  ClusterIP :: string

record Service =
  ObjectMeta :: ObjectMeta
  Spec :: ServiceSpec

definition ServiceTypeClusterIP :: string where
  "ServiceTypeClusterIP = ''ClusterIP''"

record Status =
  Code :: "32 word"
  Message :: string

record RawExtension =
  Raw :: string

record AdmissionRequest =
  UID :: string
  Object :: RawExtension

record AdmissionResponse =
  UID :: string
  Allowed :: bool
  Result :: "Status option"
  Patch :: "char slice"
  PatchType :: "string option"
  Warnings :: "string slice"

record AdmissionReview =
  Request :: "AdmissionRequest option"
  Response :: "AdmissionResponse option"

definition PatchTypeJSONPatch :: string where
  "PatchTypeJSONPatch = ''JSONPatch''"

definition StatusBadRequest :: "32 word" where
  "StatusBadRequest = 400"

definition StatusInternalServerError :: "32 word" where
  "StatusInternalServerError = 500"

subsection \<open>What the engine calls outside the repository\<close>

text \<open>
  The directory is reached through \<^verbatim>\<open>client()\<close> and \<^verbatim>\<open>Services("").List\<close>. The client is
  built once for the process, under \<^verbatim>\<open>sync.Once\<close>: when \<^verbatim>\<open>newClient\<close> fails with an error,
  \<^verbatim>\<open>client()\<close> panics with the text \<^verbatim>\<open>error creating Kubernetes client: \<close> followed by
  the error; on every later call the initialiser does not run again, \<^verbatim>\<open>client()\<close> returns
  the nil pointer and the method call on it panics. With a client, the listing returns
  the Services or an error. Which of these a call meets is the state of the directory at
  that call.
\<close>

datatype directory =
    NoClient string
  | NilClient
  | ListError string
  | ServiceList "Service list"

text \<open>
  The library functions are parameters of the model:
  \<^item> \<open>Unmarshal\<close> is \<^verbatim>\<open>json.Unmarshal(raw, &pod)\<close> on a zero Pod: the Pod afterwards
    (which the library may have filled in part) and the error, if any;
  \<^item> \<open>Marshal\<close> is \<^verbatim>\<open>json.Marshal(pod)\<close>, \<open>MarshalMaps\<close> is \<^verbatim>\<open>json.Marshal\<close> on a slice of
    string maps (each map given by its entries);
  \<^item> \<open>CreatePatch\<close> is \<^verbatim>\<open>jsonpatch.CreatePatch\<close>; the engine never looks into an
    operation, so their type \<open>'op\<close> is left open;
  \<^item> \<open>MarshalJSON\<close> is the operation's \<^verbatim>\<open>MarshalJSON\<close> method.
  Errors are to the left.
\<close>

record ('op, 'x) env =
  Directory :: directory
  Unmarshal :: "string \<Rightarrow> 'x Pod_scheme \<times> string option"
  Marshal :: "'x Pod_scheme \<Rightarrow> string + string"
  MarshalMaps :: "(string \<times> string) list list \<Rightarrow> string + string"
  CreatePatch :: "string \<Rightarrow> string \<Rightarrow> string + 'op list"
  MarshalJSON :: "'op \<Rightarrow> string + string"

datatype panic =
    NilPointerDereference
  | ClientPanic string

datatype 'a outcome =
    Panicked panic
  | Failed string
  | Returned 'a

subsection \<open>Eligibility\<close>

definition watchingLabelKey :: string where
  "watchingLabelKey = ''k8s-app''"

definition isWatching :: "'x Pod_scheme \<Rightarrow> bool" where
  "isWatching pod =
     (let (_, ok) = index_ok (Labels (Pod.ObjectMeta pod)) watchingLabelKey
      in if \<not> ok then False else True)"

subsection \<open>The directory reader\<close>

text \<open>
  \<^verbatim>\<open>fmt.Sprintf("%s.%s.svc.cluster.local", name, namespace)\<close> and its two siblings
  substitute strings into a format without other verbs: they concatenate.
\<close>

definition alias_of :: "Service \<Rightarrow> HostAlias" where
  "alias_of service =
     (let domain1 = Name (Service.ObjectMeta service) @ ''.'' @ Namespace (Service.ObjectMeta service)
                      @ ''.svc.cluster.local'';
          domain2 = Name (Service.ObjectMeta service) @ ''.'' @ Namespace (Service.ObjectMeta service)
                      @ ''.svc'';
          domain3 = Name (Service.ObjectMeta service) @ ''.'' @ Namespace (Service.ObjectMeta service)
      in \<lparr>IP = ClusterIP (Service.Spec service), Hostnames = [domain1, domain2, domain3]\<rparr>)"

text \<open>The loop over \<^verbatim>\<open>services.Items\<close>, with the slice \<^verbatim>\<open>hostAliases\<close> as accumulator.\<close>

fun services_loop :: "Service list \<Rightarrow> HostAlias list \<Rightarrow> HostAlias list" where
  "services_loop [] hostAliases = hostAliases"
| "services_loop (service # items) hostAliases =
     (if Type (Service.Spec service) \<noteq> ServiceTypeClusterIP then services_loop items hostAliases
      else if ClusterIP (Service.Spec service) = '''' \<or> ClusterIP (Service.Spec service) = ''None''
      then services_loop items hostAliases
      else services_loop items (hostAliases @ [alias_of service]))"

definition getHostAliasesFromServices :: "('op, 'x) env \<Rightarrow> HostAlias slice outcome" where
  "getHostAliasesFromServices e =
     (case Directory e of
        NoClient err \<Rightarrow> Panicked (ClientPanic (''error creating Kubernetes client: '' @ err))
      | NilClient \<Rightarrow> Panicked NilPointerDereference
      | ListError err \<Rightarrow> Failed err
      | ServiceList items \<Rightarrow>
          if length items = 0 then Returned None
          else Returned (Some (services_loop items [])))"

subsection \<open>Response constructors of the second revision\<close>

text \<open>
  A composite literal leaves every field it does not name at its zero value.
\<close>

definition zero_Status :: Status where
  "zero_Status = \<lparr>Code = 0, Message = ''''\<rparr>"

definition zero_AdmissionResponse :: AdmissionResponse where
  "zero_AdmissionResponse =
     \<lparr>UID = '''', Allowed = False, Result = None, Patch = None, PatchType = None, Warnings = None\<rparr>"

definition responseErrored :: "string \<Rightarrow> 32 word \<Rightarrow> string \<Rightarrow> AdmissionResponse" where
  "responseErrored uid code err =
     zero_AdmissionResponse
       \<lparr>UID := uid,
        Allowed := False,
        Result := Some (zero_Status\<lparr>Code := code, Message := err\<rparr>)\<rparr>"

definition responseAllowed :: "string \<Rightarrow> string \<Rightarrow> AdmissionResponse" where
  "responseAllowed uid msg =
     zero_AdmissionResponse
       \<lparr>UID := uid,
        Allowed := True,
        Result := Some (zero_Status\<lparr>Message := msg\<rparr>)\<rparr>"

text \<open>
  The loop of \<^verbatim>\<open>patchResponseFromRaw\<close> over the operations: each is marshalled and its
  bytes are appended to \<^verbatim>\<open>patchBytes\<close>; the first error leaves the function.
\<close>

fun patches_loop :: "('op, 'x) env \<Rightarrow> 'op list \<Rightarrow> string \<Rightarrow> string + string" where
  "patches_loop e [] patchBytes = Inr patchBytes"
| "patches_loop e (p # patches) patchBytes =
     (case MarshalJSON e p of
        Inl err \<Rightarrow> Inl err
      | Inr b \<Rightarrow> patches_loop e patches (patchBytes @ b))"

definition patchResponseFromRaw ::
  "('op, 'x) env \<Rightarrow> string \<Rightarrow> string \<Rightarrow> string \<Rightarrow> AdmissionResponse" where
  "patchResponseFromRaw e uid original current =
     (case CreatePatch e original current of
        Inl err \<Rightarrow> responseErrored uid StatusInternalServerError err
      | Inr patches \<Rightarrow>
          (case patches_loop e patches [] of
             Inl err \<Rightarrow> responseErrored uid StatusInternalServerError err
           | Inr patchBytes \<Rightarrow>
               zero_AdmissionResponse
                 \<lparr>UID := uid,
                  Allowed := True,
                  Patch := Some patchBytes,
                  PatchType := (if length patches = 0 then None else Some PatchTypeJSONPatch)\<rparr>))"

subsection \<open>The engine of the second revision\<close>

text \<open>The loop that appends every derived alias to \<^verbatim>\<open>pod.Spec.HostAliases\<close>.\<close>

fun aliases_loop :: "HostAlias list \<Rightarrow> HostAlias slice \<Rightarrow> HostAlias slice" where
  "aliases_loop [] podAliases = podAliases"
| "aliases_loop (hostAlias # hostAliases) podAliases =
     aliases_loop hostAliases (append_slice podAliases [hostAlias])"

text \<open>
  \<^verbatim>\<open>req.Request\<close> is a pointer: reading the UID through a nil pointer panics. On a decode
  error the source calls \<^verbatim>\<open>responseErrored\<close> and drops the value: there is no
  \<^verbatim>\<open>return\<close>, and the run goes on with whatever Pod the decoder left.
\<close>

definition mutatePods :: "('op, 'x) env \<Rightarrow> AdmissionReview \<Rightarrow> panic + AdmissionResponse" where
  "mutatePods e req =
     (case Request req of
        None \<Rightarrow> Inl NilPointerDereference
      | Some request \<Rightarrow>
          let uid = AdmissionRequest.UID request;
              (pod, err) = Unmarshal e (Raw (Object request));
              _ = (case err of None \<Rightarrow> None
                   | Some msg \<Rightarrow> Some (responseErrored uid StatusBadRequest msg))
          in if \<not> isWatching pod then Inr (responseAllowed uid ''Pod is not watching'')
             else
               (case getHostAliasesFromServices e of
                  Panicked p \<Rightarrow> Inl p
                | Failed err \<Rightarrow>
                    Inr (responseErrored uid StatusInternalServerError
                           (''failed to get host aliases: '' @ err))
                | Returned hostAliases \<Rightarrow>
                    if len hostAliases = 0 then Inr (responseAllowed uid ''No host aliases found'')
                    else
                      let pod1 = (if HostAliases (Pod.Spec pod) = None
                                  then pod\<lparr>Pod.Spec := (Pod.Spec pod)\<lparr>HostAliases := Some []\<rparr>\<rparr>
                                  else pod);
                          pod2 = pod1\<lparr>Pod.Spec := (Pod.Spec pod1)
                                   \<lparr>HostAliases :=
                                      aliases_loop (elems hostAliases) (HostAliases (Pod.Spec pod1))\<rparr>\<rparr>
                      in (case Marshal e pod2 of
                            Inl err \<Rightarrow> Inr (responseErrored uid StatusInternalServerError err)
                          | Inr resp \<Rightarrow>
                              Inr (patchResponseFromRaw e uid (Raw (Object request)) resp))))"

subsection \<open>The engine of main.go\<close>

text \<open>
  Every response is a literal; none names the UID, and the handler, which stores the
  response in the review and encodes it, does not set it either. After the listing the
  function marshals a fixed one-operation patch and returns; the statements that follow
  that \<^verbatim>\<open>return\<close> in the source (encode the Pod, diff, marshal the operations) cannot be
  reached, and the block that would append the aliases to the Pod is commented out.
\<close>

definition label_patch :: "(string \<times> string) list list" where
  "label_patch = [[(''op'', ''add''), (''path'', ''/metadata/labels/env''), (''value'', ''dev'')]]"

definition mutatePods_main :: "('op, 'x) env \<Rightarrow> AdmissionReview \<Rightarrow> panic + AdmissionResponse" where
  "mutatePods_main e req =
     (case Request req of
        None \<Rightarrow> Inl NilPointerDereference
      | Some request \<Rightarrow>
          let (pod, err) = Unmarshal e (Raw (Object request))
          in (case err of
               Some msg \<Rightarrow>
                 Inr (zero_AdmissionResponse\<lparr>Result := Some (zero_Status\<lparr>Message := msg\<rparr>)\<rparr>)
             | None \<Rightarrow>
                 if \<not> isWatching pod
                 then Inr (zero_AdmissionResponse
                             \<lparr>Allowed := True,
                              Result := Some (zero_Status\<lparr>Message := ''Pod is not watching''\<rparr>)\<rparr>)
                 else
                   (case getHostAliasesFromServices e of
                      Panicked p \<Rightarrow> Inl p
                    | Failed err \<Rightarrow>
                        Inr (zero_AdmissionResponse
                               \<lparr>Warnings := Some [''Failed to get host aliases: '' @ err]\<rparr>)
                    | Returned hostAliases \<Rightarrow>
                        if len hostAliases = 0
                        then Inr (zero_AdmissionResponse
                                    \<lparr>Allowed := True,
                                     Result := Some (zero_Status\<lparr>Message := ''No host aliases found''\<rparr>)\<rparr>)
                        else
                          (case MarshalMaps e label_patch of
                             Inl err \<Rightarrow>
                               Inr (zero_AdmissionResponse
                                      \<lparr>Result := Some (zero_Status\<lparr>Message := err\<rparr>)\<rparr>)
                           | Inr patch \<Rightarrow>
                               Inr (zero_AdmissionResponse
                                      \<lparr>Allowed := True,
                                       Patch := Some patch,
                                       PatchType := Some PatchTypeJSONPatch\<rparr>)))))"

subsection \<open>The derivation as the specification words it\<close>

definition spec_qualifies :: "Service \<Rightarrow> bool" where
  "spec_qualifies s =
     (Type (Service.Spec s) = ''ClusterIP'' \<and> ClusterIP (Service.Spec s) \<noteq> ''''
        \<and> ClusterIP (Service.Spec s) \<noteq> ''None'')"

definition spec_aliases :: "Service \<Rightarrow> HostAlias list" where
  "spec_aliases s =
     (if spec_qualifies s
      then [\<lparr>IP = ClusterIP (Service.Spec s),
             Hostnames = [Name (Service.ObjectMeta s) @ ''.'' @ Namespace (Service.ObjectMeta s) @ ''.svc.cluster.local'',
                          Name (Service.ObjectMeta s) @ ''.'' @ Namespace (Service.ObjectMeta s) @ ''.svc'',
                          Name (Service.ObjectMeta s) @ ''.'' @ Namespace (Service.ObjectMeta s)]\<rparr>]
      else [])"

subsection \<open>A concrete cluster\<close>

text \<open>
  One instance of the parameters, used to run the engines: a directory of four Services
  of which one qualifies, a Pod carrying the marker label, a Pod carrying another label, and
  library functions that answer as the Go libraries do on the inputs used below. An
  operation is given by its three members, the value as JSON text.
\<close>

definition svc :: "string \<Rightarrow> string \<Rightarrow> string \<Rightarrow> string \<Rightarrow> Service" where
  "svc name namespace type ip =
     \<lparr>Service.ObjectMeta = \<lparr>Name = name, Namespace = namespace, Labels = None\<rparr>,
      Spec = \<lparr>Type = type, ClusterIP = ip\<rparr>\<rparr>"

definition db_service :: Service where
  "db_service = svc ''db'' ''prod'' ''ClusterIP'' ''10.0.0.5''"

definition x_services :: "Service list" where
  "x_services =
     [svc ''gw'' ''edge'' ''NodePort'' ''10.0.0.9'',
      db_service,
      svc ''peers'' ''prod'' ''ClusterIP'' ''None'',
      svc ''pending'' ''prod'' ''ClusterIP'' '''']"

definition zero_Pod :: Pod where
  "zero_Pod =
     \<lparr>Pod.ObjectMeta = \<lparr>Name = '''', Namespace = '''', Labels = None\<rparr>,
      Spec = \<lparr>HostAliases = None\<rparr>\<rparr>"

definition x_pod :: Pod where
  "x_pod =
     \<lparr>Pod.ObjectMeta = \<lparr>Name = '''', Namespace = '''', Labels = Some [''k8s-app'' \<mapsto> ''x'']\<rparr>,
      Spec = \<lparr>HostAliases = None\<rparr>\<rparr>"

definition y_pod :: Pod where
  "y_pod =
     \<lparr>Pod.ObjectMeta = \<lparr>Name = '''', Namespace = '''', Labels = Some [''app'' \<mapsto> ''x'']\<rparr>,
      Spec = \<lparr>HostAliases = None\<rparr>\<rparr>"

definition y_pod_raw :: string where
  \<open>y_pod_raw = ''{"metadata":{"labels":{"app":"x"}}}''\<close>

definition x_pod_raw :: string where
  \<open>x_pod_raw = ''{"metadata":{"labels":{"k8s-app":"x"}}}''\<close>

definition x_pod_encoded :: string where
  \<open>x_pod_encoded =
     ''{"metadata":{"creationTimestamp":null,"labels":{"k8s-app":"x"}},"spec":{"containers":null,"hostAliases":[{"ip":"10.0.0.5","hostnames":["db.prod.svc.cluster.local","db.prod.svc","db.prod"]}]},"status":{}}''\<close>

fun join :: "string \<Rightarrow> string list \<Rightarrow> string" where
  "join sep [] = ''''"
| "join sep [x] = x"
| "join sep (x # y # ys) = x @ sep @ join sep (y # ys)"

definition quoted :: "string \<Rightarrow> string" where
  \<open>quoted s = ''"'' @ s @ ''"''\<close>

definition alias_json :: "HostAlias \<Rightarrow> string" where
  \<open>alias_json a =
     ''{"ip":'' @ quoted (IP a) @ '',"hostnames":['' @ join '','' (map quoted (Hostnames a)) @ '']}''\<close>

definition x_Marshal :: "Pod \<Rightarrow> string + string" where
  \<open>x_Marshal pod =
     Inr (''{"metadata":{"creationTimestamp":null,"labels":{"k8s-app":"x"}},"spec":{"containers":null''
          @ (if len (HostAliases (Pod.Spec pod)) = 0 then ''''
             else '',"hostAliases":['' @ join '','' (map alias_json (elems (HostAliases (Pod.Spec pod)))) @ '']'')
          @ ''},"status":{}}'')\<close>

definition x_MarshalMaps :: "(string \<times> string) list list \<Rightarrow> string + string" where
  \<open>x_MarshalMaps ms =
     Inr (''['' @ join '',''
            (map (\<lambda>m. ''{'' @ join '','' (map (\<lambda>(k, v). quoted k @ '':'' @ quoted v) m) @ ''}'') ms)
          @ '']'')\<close>

record JsonPatchOperation =
  Operation :: string
  Path :: string
  Value :: string

definition x_operations :: "JsonPatchOperation list" where
  \<open>x_operations =
     [\<lparr>Operation = ''add'', Path = ''/metadata/creationTimestamp'', Value = ''null''\<rparr>,
      \<lparr>Operation = ''add'', Path = ''/spec'',
       Value = ''{"containers":null,"hostAliases":[{"ip":"10.0.0.5","hostnames":["db.prod.svc.cluster.local","db.prod.svc","db.prod"]}]}''\<rparr>,
      \<lparr>Operation = ''add'', Path = ''/status'', Value = ''{}''\<rparr>]\<close>

definition x_CreatePatch :: "string \<Rightarrow> string \<Rightarrow> string + JsonPatchOperation list" where
  "x_CreatePatch a b =
     (if a = b then Inr []
      else if a = x_pod_raw \<and> b = x_pod_encoded then Inr x_operations
      else Inl ''Invalid JSON Document'')"

definition x_MarshalJSON :: "JsonPatchOperation \<Rightarrow> string + string" where
  \<open>x_MarshalJSON p =
     Inr (''{"op":'' @ quoted (Operation p) @ '',"path":'' @ quoted (Path p)
          @ '',"value":'' @ Value p @ ''}'')\<close>

definition x_Unmarshal :: "string \<Rightarrow> Pod \<times> string option" where
  "x_Unmarshal raw =
     (if raw = x_pod_raw then (x_pod, None)
      else if raw = y_pod_raw then (y_pod, None)
      else if raw = ''{}'' then (zero_Pod, None)
      else (zero_Pod, Some ''unexpected end of JSON input''))"

definition x_env :: "(JsonPatchOperation, unit) env" where
  "x_env =
     \<lparr>Directory = ServiceList x_services,
      Unmarshal = x_Unmarshal,
      Marshal = x_Marshal,
      MarshalMaps = x_MarshalMaps,
      CreatePatch = x_CreatePatch,
      MarshalJSON = x_MarshalJSON\<rparr>"



definition review :: "string \<Rightarrow> string \<Rightarrow> AdmissionReview" where
  "review uid raw =
     \<lparr>Request = Some \<lparr>AdmissionRequest.UID = uid, Object = \<lparr>Raw = raw\<rparr>\<rparr>, Response = None\<rparr>"

section \<open>Unfolding\<close>

lemmas x_defs = x_env_def x_Unmarshal_def x_Marshal_def x_MarshalMaps_def x_CreatePatch_def
  x_MarshalJSON_def x_pod_def y_pod_def y_pod_raw_def x_pod_raw_def x_pod_encoded_def
  x_operations_def x_services_def db_service_def svc_def zero_Pod_def review_def quoted_def
  alias_json_def

lemmas engine_defs = mutatePods_def mutatePods_main_def getHostAliasesFromServices_def
  isWatching_def index_ok_def watchingLabelKey_def ServiceTypeClusterIP_def alias_of_def len_def
  elems_def append_slice_def patchResponseFromRaw_def responseErrored_def responseAllowed_def
  zero_AdmissionResponse_def zero_Status_def StatusBadRequest_def StatusInternalServerError_def
  PatchTypeJSONPatch_def label_patch_def

section \<open>Eligibility\<close>

lemma isWatching_iff:
  "isWatching pod \<longleftrightarrow> (\<exists>m v. Labels (Pod.ObjectMeta pod) = Some m \<and> m ''k8s-app'' = Some v)"
  by (auto simp: isWatching_def index_ok_def watchingLabelKey_def split: option.splits)

text \<open>
  C3. A Pod whose labels do not hold the key \<^verbatim>\<open>k8s-app\<close> (a nil map, an empty map or a map
  with other keys) is answered with allowed, no patch and no patch type, and the engine
  does not panic on it. The second revision answers so whatever the decoder reported;
  \<^verbatim>\<open>main.go\<close> answers so when the decoder reported no error. Eligibility is the presence
  of the key, whatever its value.
\<close>

theorem unwatched_pod_allowed_unchanged:
  assumes "Request req = Some request"
    and "Unmarshal e (Raw (Object request)) = (pod, err)"
    and "\<forall>m. Labels (Pod.ObjectMeta pod) = Some m \<longrightarrow> m ''k8s-app'' = None"
  shows "(\<exists>r. mutatePods e req = Inr r \<and> Allowed r \<and> Patch r = None \<and> PatchType r = None
              \<and> AdmissionResponse.UID r = AdmissionRequest.UID request)
       \<and> (err = None \<longrightarrow>
            (\<exists>r. mutatePods_main e req = Inr r \<and> Allowed r \<and> Patch r = None \<and> PatchType r = None))
       \<and> (\<forall>p :: 'x Pod_scheme.
            isWatching p \<longleftrightarrow> (\<exists>m v. Labels (Pod.ObjectMeta p) = Some m \<and> m ''k8s-app'' = Some v))"
proof -
  from assms(3) have nw: "\<not> isWatching pod"
    by (auto simp: isWatching_iff)
  have a: "mutatePods e req = Inr (responseAllowed (AdmissionRequest.UID request) ''Pod is not watching'')"
    using assms(1,2) nw by (simp add: mutatePods_def)
  have b: "err = None \<Longrightarrow> mutatePods_main e req =
             Inr (zero_AdmissionResponse
                    \<lparr>Allowed := True,
                     Result := Some (zero_Status\<lparr>Message := ''Pod is not watching''\<rparr>)\<rparr>)"
    using assms(1,2) nw by (simp add: mutatePods_main_def)
  show ?thesis
    using a b by (simp add: responseAllowed_def zero_AdmissionResponse_def isWatching_iff)
qed

theorem unwatched_pod_allowed_unchanged_witness:
  "Request (review ''uid-1'' y_pod_raw)
     = Some \<lparr>AdmissionRequest.UID = ''uid-1'', Object = \<lparr>Raw = y_pod_raw\<rparr>\<rparr>
   \<and> Unmarshal x_env y_pod_raw = (y_pod, None)
   \<and> Labels (Pod.ObjectMeta y_pod) = Some [''app'' \<mapsto> ''x'']
   \<and> [''app'' \<mapsto> ''x''] ''k8s-app'' = None
   \<and> (\<exists>r. mutatePods x_env (review ''uid-1'' y_pod_raw) = Inr r \<and> Allowed r \<and> Patch r = None
            \<and> PatchType r = None \<and> AdmissionResponse.UID r = ''uid-1'')
   \<and> (\<exists>r. mutatePods_main x_env (review ''uid-1'' y_pod_raw) = Inr r \<and> Allowed r
            \<and> Patch r = None \<and> PatchType r = None)"
proof -
  have 1: "Request (review ''uid-1'' y_pod_raw)
             = Some \<lparr>AdmissionRequest.UID = ''uid-1'', Object = \<lparr>Raw = y_pod_raw\<rparr>\<rparr>"
    by (simp add: review_def)
  have 2: "Unmarshal x_env (Raw (Object \<lparr>AdmissionRequest.UID = ''uid-1'', Object = \<lparr>Raw = y_pod_raw\<rparr>\<rparr>))
             = (y_pod, None)"
    by (simp add: x_env_def x_Unmarshal_def x_pod_raw_def y_pod_raw_def)
  have 3: "\<forall>m. Labels (Pod.ObjectMeta y_pod) = Some m \<longrightarrow> m ''k8s-app'' = None"
    by (simp add: y_pod_def)
  have 4: "Unmarshal x_env y_pod_raw = (y_pod, None)"
    using 2 by simp
  have u: "AdmissionRequest.UID \<lparr>AdmissionRequest.UID = ''uid-1'', Object = \<lparr>Raw = y_pod_raw\<rparr>\<rparr> = ''uid-1''"
    by simp
  from unwatched_pod_allowed_unchanged [OF 1 2 3, unfolded u]
  have a: "\<exists>r. mutatePods x_env (review ''uid-1'' y_pod_raw) = Inr r \<and> Allowed r \<and> Patch r = None
            \<and> PatchType r = None \<and> AdmissionResponse.UID r = ''uid-1''"
    and b: "\<exists>r. mutatePods_main x_env (review ''uid-1'' y_pod_raw) = Inr r \<and> Allowed r
            \<and> Patch r = None \<and> PatchType r = None"
    by blast+
  have 5: "Labels (Pod.ObjectMeta y_pod) = Some [''app'' \<mapsto> ''x'']"
    by (simp add: y_pod_def)
  have 6: "[''app'' \<mapsto> ''x''] ''k8s-app'' = None"
    by simp
  from 1 4 5 6 a b show ?thesis by blast
qed

section \<open>The directory reader\<close>

lemma services_loop_acc:
  "services_loop items acc = acc @ concat (map spec_aliases items)"
  by (induction items arbitrary: acc)
     (simp_all add: spec_aliases_def spec_qualifies_def alias_of_def ServiceTypeClusterIP_def)

text \<open>
  C4. When the listing succeeds, the reader returns, in the listing's order, for every
  Service of type ClusterIP whose cluster IP is neither empty nor \<^verbatim>\<open>"None"\<close> exactly one
  alias with the three hostnames \<^verbatim>\<open>name.namespace.svc.cluster.local\<close>,
  \<^verbatim>\<open>name.namespace.svc\<close> and \<^verbatim>\<open>name.namespace\<close>, and nothing for every other Service.
\<close>

theorem getHostAliasesFromServices_per_service:
  assumes "Directory e = ServiceList items"
  shows "\<exists>r. getHostAliasesFromServices e = Returned r
           \<and> elems r = concat (map spec_aliases items)
           \<and> (\<forall>s. spec_aliases s =
                 (if Type (Service.Spec s) = ''ClusterIP''
                     \<and> ClusterIP (Service.Spec s) \<notin> {'''', ''None''}
                  then [\<lparr>IP = ClusterIP (Service.Spec s),
                         Hostnames =
                           [Name (Service.ObjectMeta s) @ ''.'' @ Namespace (Service.ObjectMeta s) @ ''.svc.cluster.local'',
                            Name (Service.ObjectMeta s) @ ''.'' @ Namespace (Service.ObjectMeta s) @ ''.svc'',
                            Name (Service.ObjectMeta s) @ ''.'' @ Namespace (Service.ObjectMeta s)]\<rparr>]
                  else []))"
proof (cases "items = []")
  case True
  with assms show ?thesis
    by (simp add: getHostAliasesFromServices_def elems_def spec_aliases_def spec_qualifies_def)
next
  case False
  with assms show ?thesis
    by (simp add: getHostAliasesFromServices_def elems_def services_loop_acc
                  spec_aliases_def spec_qualifies_def)
qed

theorem getHostAliasesFromServices_per_service_witness:
  "Directory x_env = ServiceList x_services
   \<and> (\<exists>r. getHostAliasesFromServices x_env = Returned r
          \<and> elems r = [\<lparr>IP = ''10.0.0.5'',
                         Hostnames = [''db.prod.svc.cluster.local'', ''db.prod.svc'', ''db.prod'']\<rparr>])"
proof -
  have d: "Directory x_env = ServiceList x_services"
    by (simp add: x_env_def)
  have c: "concat (map spec_aliases x_services) =
             [\<lparr>IP = ''10.0.0.5'',
               Hostnames = [''db.prod.svc.cluster.local'', ''db.prod.svc'', ''db.prod'']\<rparr>]"
    by (simp add: x_services_def db_service_def svc_def spec_aliases_def spec_qualifies_def)
  from getHostAliasesFromServices_per_service [OF d] d c show ?thesis by auto
qed

section \<open>The responses of the second revision\<close>

lemma patches_loop_all:
  "\<forall>p \<in> set patches. MarshalJSON e p = Inr (f p) \<Longrightarrow>
     patches_loop e patches acc = Inr (acc @ concat (map f patches))"
  by (induction patches arbitrary: acc) simp_all

lemma aliases_loop_Some: "aliases_loop xs (Some ys) = Some (ys @ xs)"
  by (induction xs arbitrary: ys) (simp_all add: append_slice_def)

lemma uid_errored: "AdmissionResponse.UID (responseErrored uid c m) = uid"
  by (simp add: responseErrored_def zero_AdmissionResponse_def)

lemma uid_allowed: "AdmissionResponse.UID (responseAllowed uid m) = uid"
  by (simp add: responseAllowed_def zero_AdmissionResponse_def)

lemma uid_patch: "AdmissionResponse.UID (patchResponseFromRaw e uid a b) = uid"
  by (simp add: patchResponseFromRaw_def uid_errored zero_AdmissionResponse_def split: sum.splits)

text \<open>Every response of the second revision carries the UID of its request.\<close>

lemma mutatePods_uid:
  assumes "mutatePods e req = Inr r"
  shows "\<exists>request. Request req = Some request
           \<and> AdmissionResponse.UID r = AdmissionRequest.UID request"
  using assms
  by (auto simp: mutatePods_def Let_def uid_errored uid_allowed uid_patch
           split: option.splits prod.splits if_splits outcome.splits sum.splits)

text \<open>No response of \<^verbatim>\<open>main.go\<close> carries a UID.\<close>

lemma mutatePods_main_uid:
  assumes "mutatePods_main e req = Inr r"
  shows "AdmissionResponse.UID r = ''''"
  using assms
  by (auto simp: mutatePods_main_def Let_def zero_AdmissionResponse_def
           split: option.splits prod.splits if_splits outcome.splits sum.splits)

text \<open>
  C1. The claim is that every response carries the UID of its request. In \<^verbatim>\<open>main.go\<close> the
  request \<^verbatim>\<open>705ab4f5-6393-11e8-b7cc-42010a800002\<close> for a Pod without the marker label is
  answered with an empty UID.
\<close>

theorem mutatePods_main_omits_uid:
  "mutatePods_main x_env (review ''705ab4f5-6393-11e8-b7cc-42010a800002'' y_pod_raw) =
     Inr \<lparr>AdmissionResponse.UID = '''', Allowed = True,
          Result = Some \<lparr>Code = 0, Message = ''Pod is not watching''\<rparr>,
          Patch = None, PatchType = None, Warnings = None\<rparr>"
  by (simp add: x_defs engine_defs)

text \<open>
  The second revision has no response with the bad-request code: a status carries the
  code 0 (allowed) or 500.
\<close>

lemma mutatePods_status_codes:
  assumes "mutatePods e req = Inr r" and "Result r = Some st"
  shows "Code st = 0 \<or> Code st = StatusInternalServerError"
  using assms
  by (auto simp: mutatePods_def Let_def patchResponseFromRaw_def responseErrored_def
                 responseAllowed_def zero_AdmissionResponse_def zero_Status_def
           split: option.splits prod.splits if_splits outcome.splits sum.splits)

text \<open>
  C2. The claim is that a request whose object does not decode is denied with a
  bad-request code. On the object \<^verbatim>\<open>{\<close>, which the decoder rejects, the second revision
  goes on with the zero Pod and allows the request; \<^verbatim>\<open>main.go\<close> denies it with the
  decoder's message and status code 0.
\<close>

theorem mutatePods_decode_error_not_returned:
  "Unmarshal x_env ''{'' = (zero_Pod, Some ''unexpected end of JSON input'')
   \<and> mutatePods x_env (review ''uid-1'' ''{'') =
       Inr \<lparr>AdmissionResponse.UID = ''uid-1'', Allowed = True,
            Result = Some \<lparr>Code = 0, Message = ''Pod is not watching''\<rparr>,
            Patch = None, PatchType = None, Warnings = None\<rparr>
   \<and> mutatePods_main x_env (review ''uid-1'' ''{'') =
       Inr \<lparr>AdmissionResponse.UID = '''', Allowed = False,
            Result = Some \<lparr>Code = 0, Message = ''unexpected end of JSON input''\<rparr>,
            Patch = None, PatchType = None, Warnings = None\<rparr>"
  by (simp add: x_defs engine_defs)

section \<open>Mutation and patch\<close>

text \<open>
  In the second revision an eligible Pod and a directory with a qualifying Service lead
  to the encoding of the Pod whose alias list is the old one followed by the derived
  aliases, nothing dropped and nothing merged, and the response is built from the
  difference between the request's bytes and that encoding.
\<close>

lemma mutatePods_appends:
  assumes "Request req = Some request" and "Unmarshal e (Raw (Object request)) = (pod, err)"
    and "isWatching pod" and "Directory e = ServiceList items"
    and "concat (map spec_aliases items) \<noteq> []"
    and "Marshal e (pod\<lparr>Pod.Spec := (Pod.Spec pod)
            \<lparr>HostAliases := Some (elems (HostAliases (Pod.Spec pod)) @ concat (map spec_aliases items))\<rparr>\<rparr>)
         = Inr resp"
  shows "mutatePods e req =
           Inr (patchResponseFromRaw e (AdmissionRequest.UID request) (Raw (Object request)) resp)"
proof -
  from assms(5) have ne: "items \<noteq> []" by auto
  with assms(4) have g: "getHostAliasesFromServices e = Returned (Some (concat (map spec_aliases items)))"
    by (simp add: getHostAliasesFromServices_def services_loop_acc)
  show ?thesis
    using assms(1,2,3,5,6) g
    by (cases "HostAliases (Pod.Spec pod)")
       (auto simp: mutatePods_def Let_def len_def elems_def aliases_loop_Some)
qed

text \<open>The patch bytes are the encodings of the operations one after the other.\<close>

lemma patchResponseFromRaw_bytes:
  assumes "CreatePatch e original current = Inr patches"
    and "\<forall>p \<in> set patches. MarshalJSON e p = Inr (f p)"
  shows "patchResponseFromRaw e uid original current =
           zero_AdmissionResponse
             \<lparr>UID := uid, Allowed := True, Patch := Some (concat (map f patches)),
              PatchType := (if patches = [] then None else Some PatchTypeJSONPatch)\<rparr>"
  using assms(1) patches_loop_all [OF assms(2), of "[]"]
  by (simp add: patchResponseFromRaw_def)

text \<open>Whatever the directory lists, a patch of \<^verbatim>\<open>main.go\<close> is the encoding of its fixed operation.\<close>

lemma mutatePods_main_patch:
  assumes "mutatePods_main e req = Inr r" and "Patch r = Some bs"
  shows "MarshalMaps e label_patch = Inr bs"
  using assms
  by (auto simp: mutatePods_main_def Let_def zero_AdmissionResponse_def
           split: option.splits prod.splits if_splits outcome.splits sum.splits)

text \<open>
  C5. The claim is that the patch of an eligible Pod appends the derived aliases. For the
  Pod labelled \<^verbatim>\<open>k8s-app: x\<close> and the Service \<^verbatim>\<open>db\<close> in \<^verbatim>\<open>prod\<close> at \<^verbatim>\<open>10.0.0.5\<close>, \<^verbatim>\<open>main.go\<close>
  returns its fixed patch, which adds the label \<^verbatim>\<open>env\<close> and no alias.
\<close>

theorem mutatePods_main_fixed_patch:
  \<open>mutatePods_main x_env (review ''uid-1'' x_pod_raw) =
     Inr \<lparr>AdmissionResponse.UID = '''', Allowed = True, Result = None,
          Patch = Some ''[{"op":"add","path":"/metadata/labels/env","value":"dev"}]'',
          PatchType = Some ''JSONPatch'', Warnings = None\<rparr>\<close>
  by (simp add: x_defs engine_defs)

text \<open>
  C9. The claim is that a patch is one JSON array of operations. For the same request the
  second revision returns the three operation objects written one after the other, with
  no brackets and no commas between them.
\<close>

theorem mutatePods_patch_concatenated:
  \<open>mutatePods x_env (review ''uid-1'' x_pod_raw) =
     Inr \<lparr>AdmissionResponse.UID = ''uid-1'', Allowed = True, Result = None,
          Patch = Some ''{"op":"add","path":"/metadata/creationTimestamp","value":null}{"op":"add","path":"/spec","value":{"containers":null,"hostAliases":[{"ip":"10.0.0.5","hostnames":["db.prod.svc.cluster.local","db.prod.svc","db.prod"]}]}}{"op":"add","path":"/status","value":{}}'',
          PatchType = Some ''JSONPatch'', Warnings = None\<rparr>\<close>
  by (simp add: x_defs engine_defs)

section \<open>Directory failure\<close>

text \<open>The second revision denies with status 500 and the error in the message.\<close>

lemma mutatePods_directory_failure:
  assumes "Request req = Some request" and "Unmarshal e (Raw (Object request)) = (pod, err)"
    and "isWatching pod" and "Directory e = ListError msg"
  shows "mutatePods e req =
           Inr (responseErrored (AdmissionRequest.UID request) StatusInternalServerError
                  (''failed to get host aliases: '' @ msg))"
  using assms by (simp add: mutatePods_def getHostAliasesFromServices_def)

text \<open>In \<^verbatim>\<open>main.go\<close> the response to a failed listing has the warning and nothing else.\<close>

lemma mutatePods_main_list_error:
  assumes "Request req = Some request" and "Unmarshal e (Raw (Object request)) = (pod, None)"
    and "isWatching pod" and "Directory e = ListError msg"
  shows "mutatePods_main e req =
           Inr (zero_AdmissionResponse\<lparr>Warnings := Some [''Failed to get host aliases: '' @ msg]\<rparr>)"
  using assms by (simp add: mutatePods_main_def getHostAliasesFromServices_def)

text \<open>
  C6. The claim is that a failed directory read is answered either with allowed and a
  warning or with a denial that has a status message. When the listing fails with
  \<^verbatim>\<open>connection refused\<close>, \<^verbatim>\<open>main.go\<close> answers with the warning but leaves \<^verbatim>\<open>Allowed\<close> false
  and sets no status: a denial without a message.
\<close>

theorem mutatePods_main_directory_failure:
  "mutatePods_main (x_env\<lparr>Directory := ListError ''connection refused''\<rparr>) (review ''uid-1'' x_pod_raw) =
     Inr \<lparr>AdmissionResponse.UID = '''', Allowed = False, Result = None,
          Patch = None, PatchType = None,
          Warnings = Some [''Failed to get host aliases: connection refused'']\<rparr>"
  by (simp add: x_defs engine_defs)

section \<open>Shape of the response\<close>




text \<open>
  The same holds for any two documents between which the difference is empty.
\<close>

lemma patchResponseFromRaw_empty:
  assumes "CreatePatch e original current = Inr []"
  shows "patchResponseFromRaw e uid original current =
           \<lparr>AdmissionResponse.UID = uid, Allowed = True, Result = None,
            Patch = Some [], PatchType = None, Warnings = None\<rparr>"
  using assms
  by (simp add: patchResponseFromRaw_def zero_AdmissionResponse_def)








end
